theory Spec2Isabelle
  imports Main
begin

section \<open>Paths, as pathlib reads them\<close>

text \<open>
  The scripts handle every path through \<^verbatim>\<open>pathlib.Path\<close>. A path is modelled by its list
  of components (pathlib's \<^verbatim>\<open>parts\<close>): \<^verbatim>\<open>Path('a/b.html')\<close> is \<open>[''a'', ''b.html'']\<close> and
  \<^verbatim>\<open>Path('.')\<close> is \<open>[]\<close>. An absolute path starts with the root as its first component:
  \<^verbatim>\<open>Path('/a')\<close> is \<open>[''/'', ''a'']\<close> and \<^verbatim>\<open>Path('/')\<close> is \<open>[''/'']\<close>. The functions below follow
  the CPython 3.8 to 3.13 sources of \<^verbatim>\<open>PurePath\<close>.
\<close>

type_synonym path = "string list"

text \<open>\<^verbatim>\<open>str.rfind(c)\<close>: the highest index of \<open>c\<close>; \<open>None\<close> stands for Python's -1.\<close>

fun rfind :: "char \<Rightarrow> string \<Rightarrow> nat option" where
  "rfind c [] = None"
| "rfind c (x # xs) =
     (case rfind c xs of
        Some i \<Rightarrow> Some (Suc i)
      | None \<Rightarrow> if x = c then Some 0 else None)"

text \<open>
  \<^verbatim>\<open>PurePath.name\<close>: the last component, and the empty string for \<^verbatim>\<open>Path('.')\<close> and for the
  root, which has no component after its anchor.
\<close>

definition name :: "path \<Rightarrow> string" where
  "name p = (if p = [] \<or> p = [''/''] then [] else last p)"

text \<open>
  \<^verbatim>\<open>PurePath.parent\<close>: the path without its last component; \<^verbatim>\<open>Path('.').parent\<close> and
  \<^verbatim>\<open>Path('/').parent\<close> are the path itself.
\<close>

definition parent :: "path \<Rightarrow> path" where
  "parent p = (if p = [''/''] then p else butlast p)"

text \<open>
  \<^verbatim>\<open>PurePath.suffix\<close> and \<^verbatim>\<open>PurePath.stem\<close>, both on the name:
  \<^verbatim>\<open>i = name.rfind('.'); if 0 < i < len(name) - 1: name[i:] else ''\<close> (the stem is \<^verbatim>\<open>name[:i]\<close>,
  else the whole name).
\<close>

definition suffix :: "string \<Rightarrow> string" where
  "suffix n =
     (case rfind (CHR ''.'') n of
        Some i \<Rightarrow> if 0 < i \<and> Suc i < length n then drop i n else []
      | None \<Rightarrow> [])"

definition stem :: "string \<Rightarrow> string" where
  "stem n =
     (case rfind (CHR ''.'') n of
        Some i \<Rightarrow> if 0 < i \<and> Suc i < length n then take i n else n
      | None \<Rightarrow> n)"

text \<open>\<^verbatim>\<open>str.lower()\<close> on the ASCII letters, which is all that can produce \<^verbatim>\<open>'.html'\<close>.\<close>

definition lower_char :: "char \<Rightarrow> char" where
  "lower_char c =
     (let n = (of_char c :: nat) in if 65 \<le> n \<and> n \<le> 90 then char_of (n + 32) else c)"

definition lower :: "string \<Rightarrow> string" where
  "lower s = map lower_char s"

text \<open>Python's exceptions, as far as these scripts can meet them.\<close>

datatype exn =
    ValueError
  | OSError
  | NameError
  | EngineError string

text \<open>
  \<^verbatim>\<open>PurePath.with_suffix(s)\<close>: raises ValueError on an empty name; appends \<open>s\<close> to a name
  with no suffix, else replaces the old suffix (\<^verbatim>\<open>name[:-len(old_suffix)] + s\<close>).
\<close>

definition with_suffix :: "path \<Rightarrow> string \<Rightarrow> exn + path" where
  "with_suffix p s =
     (let n = name p in
      if n = [] then Inl ValueError
      else let old_suffix = suffix n in
        if old_suffix = [] then Inr (parent p @ [n @ s])
        else Inr (parent p @ [take (length n - length old_suffix) n @ s]))"

text \<open>
  The test both entry points apply to a single file,
  \<^verbatim>\<open>input_path.suffix.lower() == '.html'\<close>.
\<close>

definition is_html_suffix :: "path \<Rightarrow> bool" where
  "is_html_suffix p = (lower (suffix (name p)) = ''.html'')"

section \<open>The filesystem\<close>

text \<open>
  The filesystem is the list of the paths that exist, each a regular file or a directory,
  in the order a directory scan yields them. The current directory \<open>[]\<close> and the root
  \<open>[''/'']\<close> always exist.
\<close>

datatype kind = File | Dir

type_synonym filesystem = "(path \<times> kind) list"

definition lookup :: "filesystem \<Rightarrow> path \<Rightarrow> kind option" where
  "lookup fs p = (if p = [] \<or> p = [''/''] then Some Dir else map_of fs p)"

definition path_exists :: "filesystem \<Rightarrow> path \<Rightarrow> bool" where
  "path_exists fs p = (lookup fs p \<noteq> None)"

definition is_file :: "filesystem \<Rightarrow> path \<Rightarrow> bool" where
  "is_file fs p = (lookup fs p = Some File)"

definition is_dir :: "filesystem \<Rightarrow> path \<Rightarrow> bool" where
  "is_dir fs p = (lookup fs p = Some Dir)"

text \<open>
  \<^verbatim>\<open>Path.mkdir(parents=True, exist_ok=True)\<close>: nothing to do for a directory that exists;
  OSError (FileExistsError, NotADirectoryError) when the path or one of its ancestors is a
  regular file; else the missing ancestors are created first, then the directory.
\<close>

function mkdir_parents :: "filesystem \<Rightarrow> path \<Rightarrow> exn + filesystem" where
  "mkdir_parents fs p =
     (if p = [] \<or> p = [''/''] then Inr fs
      else case map_of fs p of
        Some Dir \<Rightarrow> Inr fs
      | Some File \<Rightarrow> Inl OSError
      | None \<Rightarrow>
          (case mkdir_parents fs (parent p) of
             Inl e \<Rightarrow> Inl e
           | Inr fs' \<Rightarrow> Inr (fs' @ [(p, Dir)])))"
  by pat_completeness auto
termination
  by (relation "measure (\<lambda>(fs, p). length p)") (auto simp: parent_def)

text \<open>
  \<^verbatim>\<open>Path.glob("*.html")\<close>: the immediate children of a directory whose name ends in
  \<^verbatim>\<open>.html\<close> (the match is case-sensitive, as on POSIX, and takes directories as well as
  files); nothing for a path that is not a directory.
\<close>

definition matches_html :: "string \<Rightarrow> bool" where
  "matches_html n = (5 \<le> length n \<and> drop (length n - 5) n = ''.html'')"

definition glob_html :: "filesystem \<Rightarrow> path \<Rightarrow> path list" where
  "glob_html fs d =
     (if is_dir fs d
      then remdups (filter (\<lambda>p. p \<noteq> [] \<and> parent p = d \<and> matches_html (name p)) (map fst fs))
      else [])"

text \<open>A file written at a path: a new regular file, or the existing entry overwritten.\<close>

definition write_file :: "filesystem \<Rightarrow> path \<Rightarrow> filesystem" where
  "write_file fs p = (if path_exists fs p then fs else fs @ [(p, File)])"

section \<open>The rendering engine and the observable world\<close>

text \<open>
  Playwright is outside the repository. The scripts see it through the calls they make,
  each of which returns or raises. The options of \<^verbatim>\<open>page.pdf\<close> are a record; the margin is
  the dictionary of the four sides.
\<close>

record pdf_options =
  format :: string
  margin_top :: string
  margin_right :: string
  margin_bottom :: string
  margin_left :: string
  print_background :: bool
  prefer_css_page_size :: bool

datatype call =
    Launch
  | NewPage
  | Goto path string
  | WaitForTimeout nat
  | Pdf path pdf_options
  | PageClose
  | BrowserClose

text \<open>The lines the two conversion functions print.\<close>

datatype message =
    HtmlFileNotFound path
  | GeneratedPdf string
  | PdfGenerationFailed path
  | PdfGenerationError exn
  | HtmlDirNotFound path
  | NoHtmlFilesFound path
  | Converting nat
  | FailedToGenerate string
  | ErrorConverting string exn

datatype event =
    Returned call
  | Raised call exn
  | Print message

text \<open>
  What the engine does with one source file: the call of the page that raises, if any, and
  whether \<^verbatim>\<open>page.pdf\<close>, when it returns, has left a file at the path it was given.
\<close>

datatype stage = AtNewPage | AtGoto | AtWait | AtPdf | AtPageClose

record page_behaviour =
  fault :: "(stage \<times> exn) option"
  renders :: bool

text \<open>
  The environment of a run: whether the import of Playwright succeeded
  (\<^verbatim>\<open>PLAYWRIGHT_AVAILABLE\<close>), whether starting the driver and launching Chromium raises, how
  each source file renders, and whether \<^verbatim>\<open>browser.close()\<close> raises. Every exception of
  the engine is an instance of Python's \<^verbatim>\<open>Exception\<close>.
\<close>

record env =
  playwright_available :: bool
  launch_error :: "exn option"
  page_of :: "path \<Rightarrow> page_behaviour"
  browser_close_error :: "exn option"

text \<open>The state a run changes: the filesystem, and the calls and printed lines so far.\<close>

record world =
  files :: filesystem
  trace :: "event list"

type_synonym 'a action = "world \<Rightarrow> (exn + 'a) \<times> world"

definition emit :: "event \<Rightarrow> world \<Rightarrow> world" where
  "emit ev w = w\<lparr>trace := trace w @ [ev]\<rparr>"

definition py_print :: "message \<Rightarrow> world \<Rightarrow> world" where
  "py_print m w = emit (Print m) w"

text \<open>One awaited call of the engine: it is recorded, and returns or raises.\<close>

definition invoke :: "call \<Rightarrow> exn option \<Rightarrow> unit action" where
  "invoke c err w =
     (case err of
        Some e \<Rightarrow> (Inl e, emit (Raised c e) w)
      | None \<Rightarrow> (Inr (), emit (Returned c) w))"

text \<open>Sequencing of two statements: an exception of the first skips the second.\<close>

definition and_then :: "'a action \<Rightarrow> ('a \<Rightarrow> 'b action) \<Rightarrow> 'b action" where
  "and_then m f w =
     (case m w of
        (Inl e, w') \<Rightarrow> (Inl e, w')
      | (Inr a, w') \<Rightarrow> f a w')"

definition raises_at :: "page_behaviour \<Rightarrow> stage \<Rightarrow> exn option" where
  "raises_at b s =
     (case fault b of
        Some (s', e) \<Rightarrow> if s' = s then Some e else None
      | None \<Rightarrow> None)"

text \<open>\<^verbatim>\<open>page.pdf(path=..., ...)\<close>: raises, or returns having written the file or not.\<close>

definition page_pdf :: "page_behaviour \<Rightarrow> path \<Rightarrow> pdf_options \<Rightarrow> unit action" where
  "page_pdf b p opts w =
     (case raises_at b AtPdf of
        Some e \<Rightarrow> (Inl e, emit (Raised (Pdf p opts) e) w)
      | None \<Rightarrow>
          (Inr (), emit (Returned (Pdf p opts))
                     (if renders b then w\<lparr>files := write_file (files w) p\<rparr> else w)))"

text \<open>
  \<^verbatim>\<open>async with async_playwright() as p: browser = await p.chromium.launch()\<close>. When the import
  failed, the name \<^verbatim>\<open>async_playwright\<close> is unbound and the statement raises NameError.
\<close>

definition launch :: "env \<Rightarrow> unit action" where
  "launch env w =
     (if playwright_available env then invoke Launch (launch_error env) w
      else (Inl NameError, w))"

section \<open>Modules/pdf_generator.py\<close>

text \<open>
  An optional argument is \<open>None\<close> when it is absent and \<open>Some p\<close> when it is a non-empty
  string that pathlib reads as \<open>p\<close>. \<^verbatim>\<open>str(path)\<close> and \<^verbatim>\<open>Path(string)\<close> are left implicit: a
  function that returns \<^verbatim>\<open>str(pdf_path)\<close> returns the path here. The synchronous wrappers
  only run the coroutine to its end (\<^verbatim>\<open>asyncio.run\<close>).
\<close>

definition check_playwright :: "env \<Rightarrow> bool" where
  "check_playwright env = playwright_available env"

text \<open>Lines 40 to 45 of \<^verbatim>\<open>convert_html_to_pdf_async\<close>: the output path.\<close>

definition pdf_path_for :: "path \<Rightarrow> path option \<Rightarrow> exn + path" where
  "pdf_path_for html_path output_dir =
     (case output_dir of
        Some d \<Rightarrow> Inr (d @ [stem (name html_path) @ ''.pdf''])
      | None \<Rightarrow> with_suffix html_path ''.pdf'')"

text \<open>Lines 51 to 86: the body of the \<^verbatim>\<open>try\<close>.\<close>

definition convert_try :: "env \<Rightarrow> path \<Rightarrow> path \<Rightarrow> path option action" where
  "convert_try env html_path pdf_path =
     and_then (launch env) (\<lambda>_.
     and_then (invoke NewPage (raises_at (page_of env html_path) AtNewPage)) (\<lambda>_.
     and_then (invoke (Goto html_path ''networkidle'')
                 (raises_at (page_of env html_path) AtGoto)) (\<lambda>_.
     and_then (invoke (WaitForTimeout 2000) (raises_at (page_of env html_path) AtWait)) (\<lambda>_.
     and_then (page_pdf (page_of env html_path) pdf_path
                 \<lparr>format = ''Letter'',
                  margin_top = ''0.75in'', margin_right = ''0.75in'',
                  margin_bottom = ''0.75in'', margin_left = ''0.75in'',
                  print_background = True, prefer_css_page_size = True\<rparr>) (\<lambda>_.
     and_then (invoke BrowserClose (browser_close_error env)) (\<lambda>_.
     (\<lambda>w. if path_exists (files w) pdf_path
          then (Inr (Some pdf_path), py_print (GeneratedPdf (name pdf_path)) w)
          else (Inr None, py_print (PdfGenerationFailed html_path) w))))))))"

definition convert_html_to_pdf_async :: "env \<Rightarrow> path \<Rightarrow> path option \<Rightarrow> path option action" where
  "convert_html_to_pdf_async env html_file output_dir w =
     (if \<not> path_exists (files w) html_file
      then (Inr None, py_print (HtmlFileNotFound html_file) w)
      else case pdf_path_for html_file output_dir of
        Inl e \<Rightarrow> (Inl e, w)
      | Inr pdf_path \<Rightarrow>
          (case mkdir_parents (files w) (parent pdf_path) of
             Inl e \<Rightarrow> (Inl e, w)
           | Inr fs' \<Rightarrow>
               (case convert_try env html_file pdf_path (w\<lparr>files := fs'\<rparr>) of
                  (Inl e, w') \<Rightarrow> (Inr None, py_print (PdfGenerationError e) w')
                | (Inr r, w') \<Rightarrow> (Inr r, w'))))"

definition convert_html_to_pdf :: "env \<Rightarrow> path \<Rightarrow> path option \<Rightarrow> path option action" where
  "convert_html_to_pdf = convert_html_to_pdf_async"

text \<open>Line 129 of \<^verbatim>\<open>batch_convert_directory_async\<close>: the output path of one file.\<close>

definition pdf_output_path_for :: "path \<Rightarrow> path \<Rightarrow> path" where
  "pdf_output_path_for pdf_path html_file = pdf_path @ [stem (name html_file) @ ''.pdf'']"

text \<open>Lines 126 to 160: the body of the \<^verbatim>\<open>try\<close> inside the loop, for one file.\<close>

definition batch_try :: "env \<Rightarrow> path \<Rightarrow> path \<Rightarrow> path list \<Rightarrow> path list action" where
  "batch_try env pdf_path html_file generated_pdfs =
     and_then (invoke NewPage (raises_at (page_of env html_file) AtNewPage)) (\<lambda>_.
     and_then (invoke (Goto html_file ''networkidle'')
                 (raises_at (page_of env html_file) AtGoto)) (\<lambda>_.
     and_then (invoke (WaitForTimeout 1000) (raises_at (page_of env html_file) AtWait)) (\<lambda>_.
     and_then (page_pdf (page_of env html_file) (pdf_output_path_for pdf_path html_file)
                 \<lparr>format = ''Letter'',
                  margin_top = ''0.75in'', margin_right = ''0.75in'',
                  margin_bottom = ''0.75in'', margin_left = ''0.75in'',
                  print_background = True, prefer_css_page_size = True\<rparr>) (\<lambda>_.
     and_then (invoke PageClose (raises_at (page_of env html_file) AtPageClose)) (\<lambda>_.
     (\<lambda>w. if path_exists (files w) (pdf_output_path_for pdf_path html_file)
          then (Inr (generated_pdfs @ [pdf_output_path_for pdf_path html_file]),
                py_print (GeneratedPdf (name (pdf_output_path_for pdf_path html_file))) w)
          else (Inr generated_pdfs, py_print (FailedToGenerate (name html_file)) w)))))))"

text \<open>Lines 124 to 163: the loop, with its \<^verbatim>\<open>except Exception\<close>.\<close>

fun batch_loop :: "env \<Rightarrow> path \<Rightarrow> path list \<Rightarrow> path list \<Rightarrow> world \<Rightarrow> path list \<times> world" where
  "batch_loop env pdf_path [] generated_pdfs w = (generated_pdfs, w)"
| "batch_loop env pdf_path (html_file # html_files) generated_pdfs w =
     (case batch_try env pdf_path html_file generated_pdfs w of
        (Inl e, w') \<Rightarrow>
          batch_loop env pdf_path html_files generated_pdfs
            (py_print (ErrorConverting (name html_file) e) w')
      | (Inr generated_pdfs', w') \<Rightarrow> batch_loop env pdf_path html_files generated_pdfs' w')"

definition batch_convert_directory_async :: "env \<Rightarrow> path \<Rightarrow> path option \<Rightarrow> path list action" where
  "batch_convert_directory_async env html_dir pdf_dir w =
     (if \<not> path_exists (files w) html_dir
      then (Inr [], py_print (HtmlDirNotFound html_dir) w)
      else
        (let pdf_path = (case pdf_dir of None \<Rightarrow> parent html_dir @ [''PDF''] | Some d \<Rightarrow> d) in
           (case mkdir_parents (files w) pdf_path of
              Inl e \<Rightarrow> (Inl e, w)
            | Inr fs' \<Rightarrow>
                (let html_files = glob_html fs' html_dir in
                   (if html_files = []
                    then (Inr [], py_print (NoHtmlFilesFound html_dir) (w\<lparr>files := fs'\<rparr>))
                    else
                      (case launch env (py_print (Converting (length html_files))
                                          (w\<lparr>files := fs'\<rparr>)) of
                         (Inl e, w1) \<Rightarrow> (Inl e, w1)
                       | (Inr _, w1) \<Rightarrow>
                           (case batch_loop env pdf_path html_files [] w1 of
                              (generated_pdfs, w2) \<Rightarrow>
                                (case invoke BrowserClose (browser_close_error env) w2 of
                                   (Inl e, w3) \<Rightarrow> (Inl e, w3)
                                 | (Inr _, w3) \<Rightarrow> (Inr generated_pdfs, w3)))))))))"

definition batch_convert_directory :: "env \<Rightarrow> path \<Rightarrow> path option \<Rightarrow> path list action" where
  "batch_convert_directory = batch_convert_directory_async"

text \<open>
  The command line, after argparse: the positional input, \<^verbatim>\<open>-o\<close>, and the flag (\<^verbatim>\<open>--check-deps\<close>
  for this module, \<^verbatim>\<open>--check\<close> for the wrapper script).
\<close>

record args =
  arg_input :: "path option"
  arg_output :: "path option"
  arg_check :: bool

text \<open>
  \<^verbatim>\<open>main\<close>, lines 173 to 223, as the exit status of the process and the world it leaves.
  Falling off the end is status 0, \<^verbatim>\<open>sys.exit(n)\<close> is \<open>n\<close>, and an exception nobody
  catches ends the interpreter with status 1. What \<^verbatim>\<open>main\<close> and \<^verbatim>\<open>check_playwright\<close> print
  themselves is left out.
\<close>

definition pdf_generator_main :: "env \<Rightarrow> args \<Rightarrow> world \<Rightarrow> int \<times> world" where
  "pdf_generator_main env a w =
     (if arg_check a then (if check_playwright env then (0, w) else (1, w))
      else case arg_input a of
        None \<Rightarrow> (1, w)
      | Some input_path \<Rightarrow>
          if \<not> check_playwright env then (1, w)
          else if is_file (files w) input_path \<and> is_html_suffix input_path then
            (case convert_html_to_pdf env input_path (arg_output a) w of
               (Inl e, w') \<Rightarrow> (1, w')
             | (Inr (Some pdf_file), w') \<Rightarrow> (0, w')
             | (Inr None, w') \<Rightarrow> (1, w'))
          else if is_dir (files w) input_path then
            (case batch_convert_directory env input_path (arg_output a) w of
               (Inl e, w') \<Rightarrow> (1, w')
             | (Inr generated_pdfs, w') \<Rightarrow> (0, w'))
          else (1, w))"

section \<open>generate_pdfs.py\<close>

text \<open>
  \<^verbatim>\<open>main\<close>, lines 22 to 143, in the same terms. The output directory is decided and created
  before the \<^verbatim>\<open>try\<close>; \<^verbatim>\<open>except Exception\<close> turns what the conversions raise into status 1.
\<close>

definition generate_pdfs_main :: "env \<Rightarrow> args \<Rightarrow> world \<Rightarrow> int \<times> world" where
  "generate_pdfs_main env a w =
     (if (arg_check a \<or> arg_input a = None) \<and> \<not> check_playwright env then (1, w)
      else if (arg_check a \<or> arg_input a = None) \<and> arg_input a = None then (0, w)
      else case arg_input a of
        None \<Rightarrow> (1, w)
      | Some input_path \<Rightarrow>
          if \<not> path_exists (files w) input_path then (1, w)
          else
            (let output_dir =
               (case arg_output a of
                  Some d \<Rightarrow> d
                | None \<Rightarrow>
                    (if is_file (files w) input_path then parent input_path @ [''PDF'']
                     else parent input_path @ [''PDF'']))
             in
               (case mkdir_parents (files w) output_dir of
                  Inl e \<Rightarrow> (1, w)
                | Inr fs' \<Rightarrow>
                    (if is_file fs' input_path \<and> is_html_suffix input_path then
                       (case convert_html_to_pdf env input_path (Some output_dir)
                               (w\<lparr>files := fs'\<rparr>) of
                          (Inl e, w') \<Rightarrow> (1, w')
                        | (Inr (Some pdf_file), w') \<Rightarrow> (0, w')
                        | (Inr None, w') \<Rightarrow> (1, w'))
                     else if is_dir fs' input_path then
                       (case batch_convert_directory env input_path (Some output_dir)
                               (w\<lparr>files := fs'\<rparr>) of
                          (Inl e, w') \<Rightarrow> (1, w')
                        | (Inr generated_pdfs, w') \<Rightarrow>
                            (if generated_pdfs \<noteq> [] then (0, w') else (1, w')))
                     else (1, w\<lparr>files := fs'\<rparr>)))))"

section \<open>What a run lets one observe\<close>

text \<open>
  The outcome the batch reports for one file is the line it prints for it: the name of the
  PDF it generated, or the name of the source with the exception's text when there is one.
\<close>

datatype outcome = Success string | Failure string "exn option"

fun outcome_of :: "event \<Rightarrow> outcome list" where
  "outcome_of (Print (GeneratedPdf n)) = [Success n]"
| "outcome_of (Print (FailedToGenerate n)) = [Failure n None]"
| "outcome_of (Print (ErrorConverting n e)) = [Failure n (Some e)]"
| "outcome_of _ = []"

definition reports :: "event list \<Rightarrow> outcome list" where
  "reports es = concat (map outcome_of es)"




text \<open>The calls made to the engine, in order, whether they returned or raised.\<close>

fun call_of :: "event \<Rightarrow> call list" where
  "call_of (Returned c) = [c]"
| "call_of (Raised c e) = [c]"
| "call_of (Print m) = []"

definition engine_calls :: "event list \<Rightarrow> call list" where
  "engine_calls es = concat (map call_of es)"

text \<open>The options of every \<^verbatim>\<open>page.pdf\<close> call made.\<close>

fun options_of :: "call \<Rightarrow> pdf_options list" where
  "options_of (Pdf p opts) = [opts]"
| "options_of _ = []"

definition pdf_requests :: "event list \<Rightarrow> pdf_options list" where
  "pdf_requests es = concat (map options_of (engine_calls es))"

text \<open>
  The formatting the specification fixes: page size Letter, 0.75 inch on the four sides,
  backgrounds printed, the page size of the CSS preferred.
\<close>

definition letter_options :: pdf_options where
  "letter_options =
     \<lparr>format = ''Letter'',
      margin_top = ''0.75in'', margin_right = ''0.75in'',
      margin_bottom = ''0.75in'', margin_left = ''0.75in'',
      print_background = True, prefer_css_page_size = True\<rparr>"

text \<open>
  The number of pages open in the browser each time a new page is asked for. A page is
  open from the \<^verbatim>\<open>new_page\<close> that returned it to the \<^verbatim>\<open>page.close\<close> that returns, or to the
  \<^verbatim>\<open>browser.close\<close>, which closes every page.
\<close>

fun pages_open_at_requests :: "nat \<Rightarrow> event list \<Rightarrow> nat list" where
  "pages_open_at_requests n [] = []"
| "pages_open_at_requests n (Returned NewPage # es) = n # pages_open_at_requests (Suc n) es"
| "pages_open_at_requests n (Raised NewPage e # es) = n # pages_open_at_requests n es"
| "pages_open_at_requests n (Returned PageClose # es) = pages_open_at_requests (n - 1) es"
| "pages_open_at_requests n (Returned BrowserClose # es) = pages_open_at_requests 0 es"
| "pages_open_at_requests n (ev # es) = pages_open_at_requests n es"

section \<open>Concrete runs\<close>

text \<open>
  An engine that renders every page, except that navigating to \<^verbatim>\<open>site/b.html\<close> raises.
\<close>

definition flaky_env :: env where
  "flaky_env =
     \<lparr>playwright_available = True,
      launch_error = None,
      page_of = (\<lambda>p. if p = [''site'', ''b.html'']
                      then \<lparr>fault = Some (AtGoto, EngineError ''net::ERR_FAILED''), renders = True\<rparr>
                      else \<lparr>fault = None, renders = True\<rparr>),
      browser_close_error = None\<rparr>"

text \<open>An engine for which \<^verbatim>\<open>page.pdf\<close> raises on every page.\<close>

definition broken_env :: env where
  "broken_env =
     \<lparr>playwright_available = True,
      launch_error = None,
      page_of = (\<lambda>p. \<lparr>fault = Some (AtPdf, EngineError ''Protocol error''), renders = False\<rparr>),
      browser_close_error = None\<rparr>"

text \<open>
  A directory \<^verbatim>\<open>site\<close> with three HTML files, an empty directory \<^verbatim>\<open>empty\<close>, and a file
  \<^verbatim>\<open>notes.html\<close> in the current directory; nothing printed or called yet.
\<close>

definition site_world :: world where
  "site_world =
     \<lparr>files =
        [([''site''], Dir),
         ([''site'', ''a.html''], File),
         ([''site'', ''b.html''], File),
         ([''site'', ''c.html''], File),
         ([''empty''], Dir),
         ([''notes.html''], File)],
      trace = []\<rparr>"

text \<open>A directory \<^verbatim>\<open>solo\<close> with one HTML file.\<close>

definition solo_world :: world where
  "solo_world =
     \<lparr>files = [([''solo''], Dir), ([''solo'', ''x.html''], File)],
      trace = []\<rparr>"

section \<open>Traces and single steps\<close>

lemma reports_append [simp]: "reports (xs @ ys) = reports xs @ reports ys"
  by (simp add: reports_def)

lemma engine_calls_append [simp]: "engine_calls (xs @ ys) = engine_calls xs @ engine_calls ys"
  by (simp add: engine_calls_def)

lemma pdf_requests_append [simp]: "pdf_requests (xs @ ys) = pdf_requests xs @ pdf_requests ys"
  by (simp add: pdf_requests_def)

lemma reports_Nil [simp]: "reports [] = []"
  by (simp add: reports_def)

lemma reports_Cons [simp]: "reports (ev # es) = outcome_of ev @ reports es"
  by (simp add: reports_def)

lemma engine_calls_Nil [simp]: "engine_calls [] = []"
  by (simp add: engine_calls_def)

lemma engine_calls_Cons [simp]: "engine_calls (ev # es) = call_of ev @ engine_calls es"
  by (simp add: engine_calls_def)

lemma pdf_requests_calls: "pdf_requests es = concat (map options_of (engine_calls es))"
  by (simp add: pdf_requests_def)

lemma trace_emit [simp]: "trace (emit ev w) = trace w @ [ev]"
  by (simp add: emit_def)

lemma files_emit [simp]: "files (emit ev w) = files w"
  by (simp add: emit_def)

lemma trace_py_print [simp]: "trace (py_print m w) = trace w @ [Print m]"
  by (simp add: py_print_def)

lemma files_py_print [simp]: "files (py_print m w) = files w"
  by (simp add: py_print_def)

lemma name_snoc [simp]: "n \<noteq> ''/'' \<Longrightarrow> name (d @ [n]) = n"
  by (simp add: name_def)

lemma pdf_name_not_root [simp]: "s @ ''.pdf'' \<noteq> ''/''"
  by (cases s) simp_all

text \<open>One file of the batch: what it reports.\<close>

lemmas run_defs = and_then_def invoke_def page_pdf_def raises_at_def



lemma batch_try_calls:
  "batch_try env d f gen w = (r, w') \<Longrightarrow>
     \<exists>cs. engine_calls (trace w') = engine_calls (trace w) @ cs \<and>
          Launch \<notin> set cs \<and> BrowserClose \<notin> set cs \<and>
          set (concat (map options_of cs)) \<subseteq> {letter_options}"
proof (cases "fault (page_of env f)")
  case None
  assume "batch_try env d f gen w = (r, w')"
  with None show ?thesis
    by (auto simp: batch_try_def run_defs letter_options_def split: if_splits)
next
  case (Some a)
  assume run: "batch_try env d f gen w = (r, w')"
  obtain st e where a: "a = (st, e)" by (cases a)
  from run Some a show ?thesis
    by (cases st) (auto simp: batch_try_def run_defs letter_options_def split: if_splits)
qed



lemma batch_loop_calls:
  "\<exists>cs. engine_calls (trace (snd (batch_loop env d xs gen w))) = engine_calls (trace w) @ cs \<and>
        Launch \<notin> set cs \<and> BrowserClose \<notin> set cs \<and>
        set (concat (map options_of cs)) \<subseteq> {letter_options}"
proof (induction xs arbitrary: gen w)
  case Nil
  show ?case by simp
next
  case (Cons f xs)
  obtain r w1 where step: "batch_try env d f gen w = (r, w1)"
    by (cases "batch_try env d f gen w")
  from batch_try_calls[OF step] obtain cs1 where
    cs1: "engine_calls (trace w1) = engine_calls (trace w) @ cs1"
         "Launch \<notin> set cs1" "BrowserClose \<notin> set cs1"
         "set (concat (map options_of cs1)) \<subseteq> {letter_options}"
    by blast
  define g2 where "g2 = (case r of Inl e \<Rightarrow> gen | Inr g \<Rightarrow> g)"
  define w2 where "w2 = (case r of Inl e \<Rightarrow> py_print (ErrorConverting (name f) e) w1 | Inr g \<Rightarrow> w1)"
  have w2: "engine_calls (trace w2) = engine_calls (trace w1)"
    by (cases r) (simp_all add: w2_def)
  have unfold: "batch_loop env d (f # xs) gen w = batch_loop env d xs g2 w2"
    using step by (cases r) (simp_all add: g2_def w2_def)
  from Cons.IH[of g2 w2] obtain cs2 where
    cs2: "engine_calls (trace (snd (batch_loop env d xs g2 w2))) = engine_calls (trace w2) @ cs2"
         "Launch \<notin> set cs2" "BrowserClose \<notin> set cs2"
         "set (concat (map options_of cs2)) \<subseteq> {letter_options}"
    by blast
  have "engine_calls (trace (snd (batch_loop env d (f # xs) gen w)))
          = engine_calls (trace w) @ (cs1 @ cs2)"
    using unfold cs2(1) w2 cs1(1) by simp
  moreover have "Launch \<notin> set (cs1 @ cs2)" "BrowserClose \<notin> set (cs1 @ cs2)"
    using cs1 cs2 by auto
  moreover have "set (concat (map options_of (cs1 @ cs2))) \<subseteq> {letter_options}"
    using cs1(4) cs2(4) by auto
  ultimately show ?case by blast
qed


lemma pdf_requests_Nil [simp]: "pdf_requests [] = []"
  by (simp add: pdf_requests_def)

lemma pdf_requests_Cons [simp]:
  "pdf_requests (ev # es) = concat (map options_of (call_of ev)) @ pdf_requests es"
  by (simp add: pdf_requests_def)

lemma same_elements: "set xs \<subseteq> {a} \<Longrightarrow> xs = replicate (length xs) a"
  by (induction xs) auto

lemma convert_try_requests:
  "convert_try env f p w = (r, w') \<Longrightarrow>
     \<exists>os. pdf_requests (trace w') = pdf_requests (trace w) @ os \<and> set os \<subseteq> {letter_options}"
proof (cases "fault (page_of env f)")
  case None
  assume "convert_try env f p w = (r, w')"
  with None show ?thesis
    by (auto simp: convert_try_def launch_def run_defs letter_options_def
          split: if_splits option.splits)
next
  case (Some a)
  assume run: "convert_try env f p w = (r, w')"
  obtain st e where a: "a = (st, e)" by (cases a)
  from run Some a show ?thesis
    by (cases st)
       (auto simp: convert_try_def launch_def run_defs letter_options_def
          split: if_splits option.splits)
qed

lemma convert_try_result:
  "convert_try env f p w = (Inr (Some q), w') \<Longrightarrow> q = p \<and> path_exists (files w') p"
proof (cases "fault (page_of env f)")
  case None
  assume "convert_try env f p w = (Inr (Some q), w')"
  with None show ?thesis
    by (auto simp: convert_try_def launch_def run_defs split: if_splits option.splits)
next
  case (Some a)
  assume run: "convert_try env f p w = (Inr (Some q), w')"
  obtain st e where a: "a = (st, e)" by (cases a)
  from run Some a show ?thesis
    by (cases st)
       (auto simp: convert_try_def launch_def run_defs split: if_splits option.splits)
qed

lemma convert_requests:
  "\<exists>os. pdf_requests (trace (snd (convert_html_to_pdf_async env f out w)))
          = pdf_requests (trace w) @ os \<and> set os \<subseteq> {letter_options}"
proof (cases "path_exists (files w) f")
  case False
  then show ?thesis by (simp add: convert_html_to_pdf_async_def)
next
  case True
  show ?thesis
  proof (cases "pdf_path_for f out")
    case (Inl e)
    with True show ?thesis by (simp add: convert_html_to_pdf_async_def)
  next
    case (Inr p)
    show ?thesis
    proof (cases "mkdir_parents (files w) (parent p)")
      case (Inl e)
      with True Inr show ?thesis by (simp add: convert_html_to_pdf_async_def)
    next
      case mk: (Inr fs')
      obtain r w' where run: "convert_try env f p (w\<lparr>files := fs'\<rparr>) = (r, w')"
        by (cases "convert_try env f p (w\<lparr>files := fs'\<rparr>)")
      from convert_try_requests[OF run] obtain os where
        os: "pdf_requests (trace w') = pdf_requests (trace w) @ os" "set os \<subseteq> {letter_options}"
        by auto
      have "pdf_requests (trace (snd (convert_html_to_pdf_async env f out w)))
              = pdf_requests (trace w')"
        using True Inr mk run by (cases r) (simp_all add: convert_html_to_pdf_async_def)
      with os show ?thesis by auto
    qed
  qed
qed

lemma batch_requests:
  "\<exists>os. pdf_requests (trace (snd (batch_convert_directory_async env html_dir pdf_dir w)))
          = pdf_requests (trace w) @ os \<and> set os \<subseteq> {letter_options}"
proof -
  define d where "d = (case pdf_dir of None \<Rightarrow> parent html_dir @ [''PDF''] | Some x \<Rightarrow> x)"
  show ?thesis
  proof (cases "path_exists (files w) html_dir")
    case False
    then show ?thesis by (simp add: batch_convert_directory_async_def)
  next
    case True
    show ?thesis
    proof (cases "mkdir_parents (files w) d")
      case (Inl e)
      with True show ?thesis
        by (simp add: batch_convert_directory_async_def d_def)
    next
      case mk: (Inr fs')
      show ?thesis
      proof (cases "glob_html fs' html_dir = []")
        case True
        with \<open>path_exists (files w) html_dir\<close> mk show ?thesis
          by (simp add: batch_convert_directory_async_def d_def)
      next
        case False
        define w0 where "w0 = py_print (Converting (length (glob_html fs' html_dir))) (w\<lparr>files := fs'\<rparr>)"
        have unfold: "batch_convert_directory_async env html_dir pdf_dir w =
           (case launch env w0 of
              (Inl e, w1) \<Rightarrow> (Inl e, w1)
            | (Inr u, w1) \<Rightarrow>
                (case batch_loop env d (glob_html fs' html_dir) [] w1 of
                   (generated_pdfs, w2) \<Rightarrow>
                     (case invoke BrowserClose (browser_close_error env) w2 of
                        (Inl e, w3) \<Rightarrow> (Inl e, w3)
                      | (Inr u, w3) \<Rightarrow> (Inr generated_pdfs, w3))))"
          using \<open>path_exists (files w) html_dir\<close> mk False
          by (simp add: batch_convert_directory_async_def d_def[symmetric] w0_def Let_def)
        have w0: "pdf_requests (trace w0) = pdf_requests (trace w)"
          by (simp add: w0_def)
        show ?thesis
        proof (cases "playwright_available env \<and> launch_error env = None")
          case False
          then show ?thesis
            unfolding unfold using w0
            by (auto simp: launch_def invoke_def split: option.splits)
        next
          case True
          define w1 where "w1 = emit (Returned Launch) w0"
          have l: "launch env w0 = (Inr (), w1)"
            using True by (simp add: launch_def invoke_def w1_def)
          obtain g w2 where loop: "batch_loop env d (glob_html fs' html_dir) [] w1 = (g, w2)"
            by (cases "batch_loop env d (glob_html fs' html_dir) [] w1")
          from batch_loop_calls[of env d "glob_html fs' html_dir" "[]" w1] loop
          obtain cs where cs: "engine_calls (trace w2) = engine_calls (trace w1) @ cs"
              "set (concat (map options_of cs)) \<subseteq> {letter_options}"
            by auto
          have "pdf_requests (trace w2) = pdf_requests (trace w) @ concat (map options_of cs)"
            using cs(1) w0 by (simp add: pdf_requests_calls w1_def)
          then show ?thesis
            unfolding unfold using l loop cs(2)
            by (auto simp: invoke_def split: option.splits)
        qed
      qed
    qed
  qed
qed

text \<open>
  C9. Every \<^verbatim>\<open>page.pdf\<close> call made by the single-file conversion and by the batch carries
  the same options: Letter, 0.75 inch on the four sides, backgrounds printed, the page size
  of the CSS preferred. Whatever the engine and the filesystem do, the options requested
  during a run are some number of copies of \<^const>\<open>letter_options\<close>.
\<close>

theorem pdf_options_fixed:
  "(\<exists>k. pdf_requests (trace (snd (convert_html_to_pdf_async env html_file output_dir w)))
          = pdf_requests (trace w) @ replicate k letter_options) \<and>
   (\<exists>k. pdf_requests (trace (snd (batch_convert_directory_async env html_dir pdf_dir w)))
          = pdf_requests (trace w) @ replicate k letter_options)"
proof
  from convert_requests[of env html_file output_dir w] obtain os where
    "pdf_requests (trace (snd (convert_html_to_pdf_async env html_file output_dir w)))
       = pdf_requests (trace w) @ os" "set os \<subseteq> {letter_options}"
    by blast
  then show "\<exists>k. pdf_requests (trace (snd (convert_html_to_pdf_async env html_file output_dir w)))
          = pdf_requests (trace w) @ replicate k letter_options"
    using same_elements by metis
next
  from batch_requests[of env html_dir pdf_dir w] obtain os where
    "pdf_requests (trace (snd (batch_convert_directory_async env html_dir pdf_dir w)))
       = pdf_requests (trace w) @ os" "set os \<subseteq> {letter_options}"
    by blast
  then show "\<exists>k. pdf_requests (trace (snd (batch_convert_directory_async env html_dir pdf_dir w)))
          = pdf_requests (trace w) @ replicate k letter_options"
    using same_elements by metis
qed

section \<open>Output paths\<close>

lemma suffix_Nil: "suffix [] = []"
  by (simp add: suffix_def)

lemma stem_suffix: "stem n @ suffix n = n"
  by (simp add: stem_def suffix_def split: option.splits)

lemma take_stem: "suffix n \<noteq> [] \<Longrightarrow> take (length n - length (suffix n)) n = stem n"
  by (auto simp add: stem_def suffix_def min_def split: option.splits if_splits)

lemma html_suffix_nonempty:
  assumes "is_html_suffix p"
  shows "suffix (name p) \<noteq> []" and "name p \<noteq> []"
proof -
  from assms show "suffix (name p) \<noteq> []"
    by (auto simp: is_html_suffix_def lower_def)
  then show "name p \<noteq> []"
    using suffix_Nil by auto
qed

lemma with_suffix_html:
  "is_html_suffix p \<Longrightarrow> with_suffix p s = Inr (parent p @ [stem (name p) @ s])"
  using html_suffix_nonempty[of p] by (simp add: with_suffix_def Let_def take_stem)

text \<open>
  C8. A source whose suffix is \<^verbatim>\<open>.html\<close> in any letter case gets the destination name
  stem plus \<^verbatim>\<open>.pdf\<close>, in the single-file function (with and without an output directory)
  and in the batch; that name is never the full source name with \<^verbatim>\<open>.pdf\<close> appended.
\<close>

theorem destination_name_is_stem_pdf:
  assumes "is_html_suffix src"
  shows "pdf_path_for src None = Inr (parent src @ [stem (name src) @ ''.pdf'']) \<and>
         pdf_path_for src (Some d) = Inr (d @ [stem (name src) @ ''.pdf'']) \<and>
         pdf_output_path_for d src = d @ [stem (name src) @ ''.pdf''] \<and>
         stem (name src) @ ''.pdf'' \<noteq> name src @ ''.pdf''"
proof -
  have "stem (name src) \<noteq> name src"
    using html_suffix_nonempty(1)[OF assms] stem_suffix[of "name src"]
    by (metis append_Nil2 same_append_eq)
  then show ?thesis
    using assms by (simp add: pdf_path_for_def pdf_output_path_for_def with_suffix_html)
qed

theorem destination_name_is_stem_pdf_witness:
  "is_html_suffix [''docs'', ''Report.HTML''] \<and>
   pdf_path_for [''docs'', ''Report.HTML''] None = Inr [''docs'', ''Report.pdf''] \<and>
   pdf_path_for [''docs'', ''Report.HTML''] (Some [''out'']) = Inr [''out'', ''Report.pdf''] \<and>
   pdf_output_path_for [''out''] [''docs'', ''Report.HTML''] = [''out'', ''Report.pdf''] \<and>
   ''Report.pdf'' \<noteq> ''Report.HTML.pdf''"
proof -
  have h: "is_html_suffix [''docs'', ''Report.HTML'']"
    by code_simp
  have st: "stem ''Report.HTML'' = ''Report''"
    by code_simp
  have pn: "parent [''docs'', ''Report.HTML''] = [''docs'']"
    "name [''docs'', ''Report.HTML''] = ''Report.HTML''"
    by (simp_all add: parent_def name_def)
  from destination_name_is_stem_pdf[OF h, of "[''out'']"] h show ?thesis
    by (simp add: pn st)
qed

section \<open>The early return\<close>

text \<open>
  C10. For an input path that does not exist, \<^verbatim>\<open>convert_html_to_pdf_async\<close> returns None
  at once: the world it leaves differs from the one it found by the printed line only, so
  no directory was created, no file written and the engine not called.
\<close>

theorem missing_input_returns_none:
  assumes "\<not> path_exists (files w) html_file"
  shows "convert_html_to_pdf_async env html_file output_dir w
           = (Inr None, w\<lparr>trace := trace w @ [Print (HtmlFileNotFound html_file)]\<rparr>)"
  using assms by (simp add: convert_html_to_pdf_async_def py_print_def emit_def)

theorem missing_input_returns_none_witness:
  "\<not> path_exists (files site_world) [''gone.html''] \<and>
   convert_html_to_pdf_async flaky_env [''gone.html''] (Some [''out'']) site_world
     = (Inr None, site_world\<lparr>trace := trace site_world @ [Print (HtmlFileNotFound [''gone.html''])]\<rparr>)"
proof -
  have h: "\<not> path_exists (files site_world) [''gone.html'']"
    by code_simp
  from h missing_input_returns_none[OF h] show ?thesis
    by (rule conjI)
qed

section \<open>The batch as a whole\<close>















section \<open>Inputs that are missing or hold no HTML\<close>

text \<open>
  C5, as amended. Neither function fails, in the sense of raising, for these inputs. For a
  path that does not exist, \<^verbatim>\<open>batch_convert_directory_async\<close> prints that the directory was
  not found and returns the empty list, with no other effect, and the main of
  \<^verbatim>\<open>generate_pdfs.py\<close> exits with status 1. For a directory that exists and has no child
  matching \<^verbatim>\<open>*.html\<close> once the output directory is made, the batch prints that no HTML
  files were found and returns the empty list; the engine is not started.
\<close>

theorem missing_or_empty_input_returns_empty:
  "(\<not> path_exists (files w) html_dir \<longrightarrow>
      batch_convert_directory_async env html_dir pdf_dir w
        = (Inr [], w\<lparr>trace := trace w @ [Print (HtmlDirNotFound html_dir)]\<rparr>) \<and>
      fst (generate_pdfs_main env
             \<lparr>arg_input = Some html_dir, arg_output = pdf_dir, arg_check = c\<rparr> w) = 1) \<and>
   (path_exists (files w) html_dir \<and>
    mkdir_parents (files w)
      (case pdf_dir of None \<Rightarrow> parent html_dir @ [''PDF''] | Some x \<Rightarrow> x) = Inr fs' \<and>
    glob_html fs' html_dir = [] \<longrightarrow>
      batch_convert_directory_async env html_dir pdf_dir w
        = (Inr [], \<lparr>files = fs', trace = trace w @ [Print (NoHtmlFilesFound html_dir)]\<rparr>))"
  by (simp add: batch_convert_directory_async_def generate_pdfs_main_def py_print_def emit_def)

theorem missing_or_empty_input_returns_empty_witness:
  "\<not> path_exists (files site_world) [''nosuch''] \<and>
   batch_convert_directory_async flaky_env [''nosuch''] None site_world
     = (Inr [], site_world\<lparr>trace := trace site_world @ [Print (HtmlDirNotFound [''nosuch''])]\<rparr>) \<and>
   fst (generate_pdfs_main flaky_env
          \<lparr>arg_input = Some [''nosuch''], arg_output = None, arg_check = False\<rparr> site_world) = 1 \<and>
   path_exists (files site_world) [''empty''] \<and>
   mkdir_parents (files site_world)
     (case None of None \<Rightarrow> parent [''empty''] @ [''PDF''] | Some x \<Rightarrow> x)
       = Inr (files site_world @ [([''PDF''], Dir)]) \<and>
   glob_html (files site_world @ [([''PDF''], Dir)]) [''empty''] = [] \<and>
   batch_convert_directory_async flaky_env [''empty''] None site_world
     = (Inr [], \<lparr>files = files site_world @ [([''PDF''], Dir)],
                trace = trace site_world @ [Print (NoHtmlFilesFound [''empty''])]\<rparr>)"
proof -
  have h1: "\<not> path_exists (files site_world) [''nosuch'']"
    by code_simp
  have h2: "path_exists (files site_world) [''empty'']"
    by code_simp
  have h3: "mkdir_parents (files site_world)
     (case None of None \<Rightarrow> parent [''empty''] @ [''PDF''] | Some x \<Rightarrow> x)
       = Inr (files site_world @ [([''PDF''], Dir)])"
    by code_simp
  have h4: "glob_html (files site_world @ [([''PDF''], Dir)]) [''empty''] = []"
    by code_simp
  note t1 = missing_or_empty_input_returns_empty
    [of site_world "[''nosuch'']" flaky_env None False "files site_world @ [([''PDF''], Dir)]"]
  note t2 = missing_or_empty_input_returns_empty
    [of site_world "[''empty'']" flaky_env None False "files site_world @ [([''PDF''], Dir)]"]
  from t1 h1 have c1:
    "batch_convert_directory_async flaky_env [''nosuch''] None site_world
       = (Inr [], site_world\<lparr>trace := trace site_world @ [Print (HtmlDirNotFound [''nosuch''])]\<rparr>)"
    "fst (generate_pdfs_main flaky_env
          \<lparr>arg_input = Some [''nosuch''], arg_output = None, arg_check = False\<rparr> site_world) = 1"
    by blast+
  from t2 h2 h3 h4 have c2:
    "batch_convert_directory_async flaky_env [''empty''] None site_world
     = (Inr [], \<lparr>files = files site_world @ [([''PDF''], Dir)],
                trace = trace site_world @ [Print (NoHtmlFilesFound [''empty''])]\<rparr>)"
    by blast
  show ?thesis
    by (intro conjI h1 h2 h3 h4 c1 c2)
qed

text \<open>
  Counterexample to C5 as written: on a path that does not exist, and on a directory with no
  HTML file, the batch returns normally, with the empty list, where the claim has it fail
  with an error.
\<close>

theorem missing_input_is_not_an_error:
  "\<not> path_exists (files site_world) [''nosuch''] \<and>
   fst (batch_convert_directory_async flaky_env [''nosuch''] None site_world) = Inr [] \<and>
   is_dir (files site_world) [''empty''] \<and>
   fst (batch_convert_directory_async flaky_env [''empty''] None site_world) = Inr []"
  by code_simp

section \<open>The destination of a single file\<close>

lemma convert_destination:
  assumes "convert_html_to_pdf_async env src out w = (Inr (Some p), w')"
  shows "pdf_path_for src out = Inr p \<and> path_exists (files w') p"
proof (cases "path_exists (files w) src")
  case False
  with assms show ?thesis by (simp add: convert_html_to_pdf_async_def)
next
  case True
  show ?thesis
  proof (cases "pdf_path_for src out")
    case (Inl e)
    with True assms show ?thesis by (simp add: convert_html_to_pdf_async_def)
  next
    case (Inr q)
    show ?thesis
    proof (cases "mkdir_parents (files w) (parent q)")
      case (Inl e)
      with True Inr assms show ?thesis by (simp add: convert_html_to_pdf_async_def)
    next
      case mk: (Inr fs')
      obtain r w1 where run: "convert_try env src q (w\<lparr>files := fs'\<rparr>) = (r, w1)"
        by (cases "convert_try env src q (w\<lparr>files := fs'\<rparr>)")
      from assms True Inr mk run have "r = Inr (Some p)" "w1 = w'"
        by (cases r; simp add: convert_html_to_pdf_async_def)+
      with convert_try_result[of env src q "w\<lparr>files := fs'\<rparr>" p w'] run Inr
      show ?thesis by simp
    qed
  qed
qed

text \<open>
  C4, as amended. In \<^verbatim>\<open>convert_html_to_pdf_async\<close>, an HTML file with no output directory
  goes to its own directory under the name stem plus \<^verbatim>\<open>.pdf\<close>, and with an output
  directory \<open>X\<close> to \<open>X\<close> under that name; a PDF the function returns is at that path and
  exists. The main of \<^verbatim>\<open>generate_pdfs.py\<close> never leaves the output directory out: without
  \<^verbatim>\<open>-o\<close> it behaves as with \<^verbatim>\<open>-o\<close> set to the directory \<^verbatim>\<open>PDF\<close> beside the input.
\<close>

theorem single_file_destination:
  assumes "is_html_suffix src"
  shows "pdf_path_for src None = Inr (parent src @ [stem (name src) @ ''.pdf'']) \<and>
         pdf_path_for src (Some X) = Inr (X @ [stem (name src) @ ''.pdf'']) \<and>
         (\<forall>out p w'. convert_html_to_pdf_async env src out w = (Inr (Some p), w') \<longrightarrow>
                     pdf_path_for src out = Inr p \<and> path_exists (files w') p) \<and>
         generate_pdfs_main env \<lparr>arg_input = Some src, arg_output = None, arg_check = c\<rparr> w
           = generate_pdfs_main env
               \<lparr>arg_input = Some src, arg_output = Some (parent src @ [''PDF'']), arg_check = c\<rparr> w"
proof -
  have "generate_pdfs_main env \<lparr>arg_input = Some src, arg_output = None, arg_check = c\<rparr> w
           = generate_pdfs_main env
               \<lparr>arg_input = Some src, arg_output = Some (parent src @ [''PDF'']), arg_check = c\<rparr> w"
    by (simp add: generate_pdfs_main_def)
  then show ?thesis
    using assms convert_destination[of env src _ w]
    by (simp add: pdf_path_for_def with_suffix_html)
qed

theorem single_file_destination_witness:
  "is_html_suffix [''notes.html''] \<and>
   pdf_path_for [''notes.html''] None = Inr [''notes.pdf''] \<and>
   pdf_path_for [''notes.html''] (Some [''X'']) = Inr [''X'', ''notes.pdf''] \<and>
   convert_html_to_pdf_async flaky_env [''notes.html''] None site_world
     = (Inr (Some [''notes.pdf'']),
        snd (convert_html_to_pdf_async flaky_env [''notes.html''] None site_world)) \<and>
   path_exists (files (snd (convert_html_to_pdf_async flaky_env [''notes.html''] None site_world)))
     [''notes.pdf'']"
proof -
  have h: "is_html_suffix [''notes.html'']"
    by code_simp
  have st: "stem ''notes.html'' = ''notes''"
    by code_simp
  have pn: "parent [''notes.html''] = []" "name [''notes.html''] = ''notes.html''"
    by (simp_all add: parent_def name_def)
  have run: "convert_html_to_pdf_async flaky_env [''notes.html''] None site_world
     = (Inr (Some [''notes.pdf'']),
        snd (convert_html_to_pdf_async flaky_env [''notes.html''] None site_world))"
    by code_simp
  note t = single_file_destination[OF h, of "[''X'']" flaky_env site_world False]
  from t have d: "pdf_path_for [''notes.html''] None = Inr [''notes.pdf'']"
    "pdf_path_for [''notes.html''] (Some [''X'']) = Inr [''X'', ''notes.pdf'']"
    by (simp_all add: pn st)
  from t run have "path_exists
     (files (snd (convert_html_to_pdf_async flaky_env [''notes.html''] None site_world)))
     [''notes.pdf'']"
    by blast
  with h d run show ?thesis
    by (intro conjI)
qed

text \<open>
  Counterexample to C4 as written, in \<^verbatim>\<open>generate_pdfs.py\<close>: given \<^verbatim>\<open>notes.html\<close> and no \<^verbatim>\<open>-o\<close>, it
  writes \<^verbatim>\<open>PDF/notes.pdf\<close>, and nothing beside the source.
\<close>

theorem generate_pdfs_default_is_pdf_directory:
  "is_file (files site_world) [''notes.html''] \<and> is_html_suffix [''notes.html''] \<and>
   fst (generate_pdfs_main flaky_env
          \<lparr>arg_input = Some [''notes.html''], arg_output = None, arg_check = False\<rparr> site_world) = 0 \<and>
   path_exists (files (snd (generate_pdfs_main flaky_env
          \<lparr>arg_input = Some [''notes.html''], arg_output = None, arg_check = False\<rparr> site_world)))
     [''PDF'', ''notes.pdf''] \<and>
   \<not> path_exists (files (snd (generate_pdfs_main flaky_env
          \<lparr>arg_input = Some [''notes.html''], arg_output = None, arg_check = False\<rparr> site_world)))
     [''notes.pdf'']"
  by code_simp

section \<open>Where the code departs from the specification\<close>

text \<open>
  C3. The main of \<^verbatim>\<open>pdf_generator.py\<close>, given a directory in which nothing is converted,
  exits with status 0, where the claim has status 1; the main of \<^verbatim>\<open>generate_pdfs.py\<close>
  exits with status 1 on the same input. This is so for a directory with no HTML file, and
  for the directory \<^verbatim>\<open>solo\<close> when the engine fails on its one file.
\<close>

theorem pdf_generator_main_exits_zero_without_success:
  "is_dir (files site_world) [''empty''] \<and>
   fst (batch_convert_directory flaky_env [''empty''] None site_world) = Inr [] \<and>
   fst (pdf_generator_main flaky_env
          \<lparr>arg_input = Some [''empty''], arg_output = None, arg_check = False\<rparr> site_world) = 0 \<and>
   fst (generate_pdfs_main flaky_env
          \<lparr>arg_input = Some [''empty''], arg_output = None, arg_check = False\<rparr> site_world) = 1 \<and>
   is_dir (files solo_world) [''solo''] \<and>
   batch_convert_directory broken_env [''solo''] None solo_world
     = (Inr [],
        \<lparr>files = [([''solo''], Dir), ([''solo'', ''x.html''], File), ([''PDF''], Dir)],
         trace =
           [Print (Converting 1), Returned Launch, Returned NewPage,
            Returned (Goto [''solo'', ''x.html''] ''networkidle''),
            Returned (WaitForTimeout 1000),
            Raised (Pdf [''PDF'', ''x.pdf''] letter_options) (EngineError ''Protocol error''),
            Print (ErrorConverting ''x.html'' (EngineError ''Protocol error'')),
            Returned BrowserClose]\<rparr>) \<and>
   fst (pdf_generator_main broken_env
          \<lparr>arg_input = Some [''solo''], arg_output = None, arg_check = False\<rparr> solo_world) = 0 \<and>
   fst (generate_pdfs_main broken_env
          \<lparr>arg_input = Some [''solo''], arg_output = None, arg_check = False\<rparr> solo_world) = 1"
  by code_simp

text \<open>
  C6. \<^verbatim>\<open>page.close()\<close> is the last statement of the \<^verbatim>\<open>try\<close>, so a page whose conversion
  raises is not closed. In the batch over \<^verbatim>\<open>site\<close>, where navigating to the second file
  raises, no page is open when the first and second pages are asked for, and one page, the
  second, is still open when the third is asked for.
\<close>

theorem page_left_open_after_failure:
  "glob_html (files site_world @ [([''PDF''], Dir)]) [''site'']
     = [[''site'', ''a.html''], [''site'', ''b.html''], [''site'', ''c.html'']] \<and>
   pages_open_at_requests 0
     (trace (snd (batch_convert_directory_async flaky_env [''site''] None site_world)))
     = [0, 0, 1]"
  by code_simp

section \<open>A run in full\<close>

text \<open>
  The batch over \<^verbatim>\<open>site\<close> asks for two PDFs, both with the fixed options, and the
  single-file conversion of \<^verbatim>\<open>notes.html\<close> for one.
\<close>

lemma site_run_requests:
  "pdf_requests (trace (snd (batch_convert_directory_async flaky_env [''site''] None site_world)))
     = [letter_options, letter_options] \<and>
   pdf_requests (trace (snd (convert_html_to_pdf_async flaky_env [''notes.html''] None site_world)))
     = [letter_options]"
  by code_simp

end
